theory Spec2Isabelle
  imports Main "HOL-Library.Word"
begin

section \<open>Data model of \<open>src/actions/public/verifyHash.ts\<close>\<close>

text \<open>
  \<open>Hex\<close> is the string type \<open>0x...\<close> of the source (the whole string, prefix included),
  \<open>ByteArray\<close> is a \<open>Uint8Array\<close>.
\<close>

type_synonym Hex = string
type_synonym ByteArray = "8 word list"

text \<open>
  Every value the source can throw or reject with. The \<open>catch\<close> block of \<open>verifyHash\<close>
  only asks \<open>error instanceof CallExecutionError\<close>; the other two constructors are the
  values for which that test is false: an error of the local encoding helpers, and
  anything else (transport failure, RPC error, ...), both labelled by a message.
\<close>

datatype error =
    CallExecutionError string
  | EncodingError string
  | OtherError string

fun isCallExecutionError :: "error \<Rightarrow> bool" where
  "isCallExecutionError (CallExecutionError _) = True"
| "isCallExecutionError _ = False"

text \<open>
  Modelled from the spec: the type \<open>Signature\<close> of \<open>types/misc.js\<close> is not among the
  sources. Section 3: a structured signature record with fields \<open>r\<close> (256-bit scalar),
  \<open>s\<close> (256-bit scalar) and a recovery indicator.
\<close>

record Signature =
  r :: nat
  s :: nat
  recovery :: nat

text \<open>The union \<open>Hex | ByteArray | Signature\<close> of the parameter \<open>signature\<close>.\<close>

datatype SignatureInput =
    SigHex (asHex: Hex)
  | SigBytes (asByteArray: ByteArray)
  | SigObject (asSignature: Signature)

text \<open>
  \<open>Pick<CallParameters, 'blockNumber' | 'blockTag' | 'factory' | 'factoryData'>\<close>: four
  optional fields (\<open>None\<close> is \<open>undefined\<close>). \<open>CallParameters\<close> adds \<open>data\<close>,
  \<open>VerifyHashParameters\<close> adds \<open>address\<close>, \<open>hash\<close> and \<open>signature\<close>.
\<close>

record CallRequest =
  blockNumber :: "int option"
  blockTag :: "string option"
  factory :: "Hex option"
  factoryData :: "Hex option"

record CallParameters = CallRequest +
  data :: "Hex option"

record VerifyHashParameters = CallRequest +
  address :: Hex
  hash :: Hex
  signature :: SignatureInput

text \<open>
  The call capability. \<open>getAction(client, call, 'call')\<close> is the client's \<open>call\<close> action,
  so a client is modelled as that action: from a request and the state \<open>'w\<close> of the
  world behind the transport (node, chain, network) to the returned \<open>{ data }\<close>
  (\<open>Hex | undefined\<close>) or the thrown error, and the world afterwards.
\<close>

type_synonym CallReturnType = "Hex option"
type_synonym 'w Client = "CallParameters \<Rightarrow> 'w \<Rightarrow> (error + CallReturnType) \<times> 'w"

section \<open>Helpers the source imports\<close>

subsection \<open>Hex and bytes\<close>

text \<open>
  Modelled from the spec: the hex digits the encoders write, and the two digits of a
  byte; lower case is taken as the canonical form of section 4.1.
\<close>

definition hexDigit :: "nat \<Rightarrow> char" where
  "hexDigit n = ''0123456789abcdef'' ! (n mod 16)"

definition hexes :: "8 word \<Rightarrow> string" where
  "hexes b = [hexDigit (unat b div 16), hexDigit (unat b mod 16)]"

text \<open>
  Modelled from the spec: \<open>bytesToHex\<close> of \<open>utils/encoding/toHex.js\<close> is not among the
  sources. Section 4.1: a raw byte sequence is encoded to hex; two digits a byte, after
  the prefix \<open>0x\<close>.
\<close>

definition bytesToHex :: "ByteArray \<Rightarrow> Hex" where
  "bytesToHex bs = ''0x'' @ concat (map hexes bs)"

text \<open>
  Modelled from the spec: reading hex back, for the byte comparison of section 4.4. The
  value of a hex digit of either case (\<open>None\<close> for any other character), and the bytes
  of a string of digit pairs.
\<close>

definition charCodeToBase16 :: "char \<Rightarrow> nat option" where
  "charCodeToBase16 c =
     (let n = (of_char c :: nat) in
      if 48 \<le> n \<and> n \<le> 57 then Some (n - 48)
      else if 65 \<le> n \<and> n \<le> 70 then Some (n - 55)
      else if 97 \<le> n \<and> n \<le> 102 then Some (n - 87)
      else None)"

fun hexPairs :: "string \<Rightarrow> ByteArray option" where
  "hexPairs [] = Some []"
| "hexPairs [c] = None"
| "hexPairs (c # d # cs) =
     (case (charCodeToBase16 c, charCodeToBase16 d, hexPairs cs) of
        (Some x, Some y, Some bs) \<Rightarrow> Some (of_nat (16 * x + y) # bs)
      | _ \<Rightarrow> None)"

text \<open>
  Modelled from the spec: the bytes a hex string stands for (the conversion behind
  \<open>isBytesEqual\<close>, not among the sources). Section 4.4 reads the source's literals
  \<open>'0x0'\<close> and \<open>'0x1'\<close> as the single bytes \<open>00\<close> and \<open>01\<close>: an odd number of digits is
  padded with a leading zero digit. A string that is not \<open>0x\<close> and hex digits stands
  for no bytes.
\<close>

definition hexToBytes :: "Hex \<Rightarrow> ByteArray option" where
  "hexToBytes h =
     (if take 2 h = ''0x''
      then (let ds = drop 2 h in hexPairs (if odd (length ds) then CHR ''0'' # ds else ds))
      else None)"

text \<open>
  Modelled from the spec: \<open>isBytesEqual\<close> of \<open>utils/data/isBytesEqual.js\<close> is not among
  the sources. Section 4.4: exact byte equality, true iff equal, else false.
\<close>

definition isBytesEqual :: "Hex \<Rightarrow> Hex \<Rightarrow> bool" where
  "isBytesEqual a b =
     (case (hexToBytes a, hexToBytes b) of
        (Some x, Some y) \<Rightarrow> x = y
      | _ \<Rightarrow> False)"

subsection \<open>Signature normalisation\<close>

text \<open>
  Modelled from the spec: \<open>isHex\<close> of \<open>utils/data/isHex.js\<close> is not among the sources.
  Section 4.1: the first case of the normaliser is the input that is already a
  hex-encoded string, the first representation of the union.
\<close>

fun isHex :: "SignatureInput \<Rightarrow> bool" where
  "isHex (SigHex _) = True"
| "isHex _ = False"

text \<open>
  \<open>typeof signature === 'object' && 'r' in signature && 's' in signature\<close>: a byte array
  is an object without these keys, a string is no object.
\<close>

fun isSignatureObject :: "SignatureInput \<Rightarrow> bool" where
  "isSignatureObject (SigObject _) = True"
| "isSignatureObject _ = False"

text \<open>
  Modelled from the spec: the fixed-width big-endian fields of section 4.1, as the \<open>k\<close>
  low hex digits of \<open>n\<close>, most significant first; and the range of the fields of
  section 3: \<open>r\<close> and \<open>s\<close> are 256-bit scalars, the recovery indicator is one byte.
\<close>

fun numberToHexDigits :: "nat \<Rightarrow> nat \<Rightarrow> string" where
  "numberToHexDigits 0 n = []"
| "numberToHexDigits (Suc k) n = numberToHexDigits k (n div 16) @ [hexDigit (n mod 16)]"

definition inRange :: "Signature \<Rightarrow> bool" where
  "inRange sg = (r sg < 2 ^ 256 \<and> s sg < 2 ^ 256 \<and> recovery sg < 2 ^ 8)"

text \<open>
  Modelled from the spec: \<open>serializeSignature\<close> of
  \<open>utils/signature/serializeSignature.js\<close> is not among the sources. Section 4.1:
  \<open>r\<close>, \<open>s\<close> and the recovery byte one after the other, each field fixed-width (32, 32
  and 1 bytes) and big-endian. Section 7: a record with an out-of-range field cannot be
  normalised and raises an encoding error.
\<close>

definition serializeSignature :: "Signature \<Rightarrow> error + Hex" where
  "serializeSignature sg =
     (if inRange sg
      then Inr (''0x'' @ numberToHexDigits 64 (r sg) @ numberToHexDigits 64 (s sg)
                 @ numberToHexDigits 2 (recovery sg))
      else Inl (EncodingError ''signature field out of range''))"

text \<open>
  Modelled from the spec: the raw byte sequence of a signature, the second of the three
  representations of section 3, with the layout of section 4.1 (\<open>r\<close>, \<open>s\<close>, recovery
  byte; fixed-width, big-endian).
\<close>

fun numberToBytes :: "nat \<Rightarrow> nat \<Rightarrow> ByteArray" where
  "numberToBytes 0 n = []"
| "numberToBytes (Suc k) n = numberToBytes k (n div 256) @ [of_nat (n mod 256)]"

definition signatureBytes :: "Signature \<Rightarrow> ByteArray" where
  "signatureBytes sg =
     numberToBytes 32 (r sg) @ numberToBytes 32 (s sg) @ numberToBytes 1 (recovery sg)"

text \<open>
  Lines 58 to 63, the immediately invoked function that yields \<open>signatureHex\<close>. The
  three branches are tried in the source's order.
\<close>

definition signatureHex :: "SignatureInput \<Rightarrow> error + Hex" where
  "signatureHex sig =
     (if isHex sig then Inr (asHex sig)
      else if isSignatureObject sig then serializeSignature (asSignature sig)
      else Inr (bytesToHex (asByteArray sig)))"

subsection \<open>The deployment payload\<close>

text \<open>
  Modelled from the spec: \<open>universalSignatureValidatorAbi\<close> of \<open>constants/abis.js\<close> is
  not among the sources. Section 6: the constructor signature is
  \<open>(address, bytes32, bytes)\<close>; the constant is modelled as these input types.
\<close>

definition universalSignatureValidatorAbi :: "string list" where
  "universalSignatureValidatorAbi = [''address'', ''bytes32'', ''bytes'']"

text \<open>
  Modelled from the spec: the concatenation of hex strings of section 4.2; the digits of
  each, one after the other, behind one prefix \<open>0x\<close>.
\<close>

definition concatHex :: "Hex list \<Rightarrow> Hex" where
  "concatHex hs = ''0x'' @ concat (map (drop 2) hs)"

text \<open>
  The ABI encoder is outside the core (section 1) and is a parameter: from the
  constructor's input types and the arguments to the encoding, or to the error it
  throws.
\<close>

type_synonym AbiEncoder = "string list \<Rightarrow> Hex list \<Rightarrow> error + Hex"

text \<open>
  Modelled from the spec: \<open>encodeDeployData\<close> of \<open>utils/abi/encodeDeployData.js\<close> is not
  among the sources. Section 4.2: the bytecode concatenated with the ABI-encoded
  constructor arguments.
\<close>

definition encodeDeployData :: "AbiEncoder \<Rightarrow> string list \<Rightarrow> Hex list \<Rightarrow> Hex \<Rightarrow> error + Hex" where
  "encodeDeployData encodeAbiParameters abi args bytecode =
     (case encodeAbiParameters abi args of
        Inl e \<Rightarrow> Inl e
      | Inr encoded \<Rightarrow> Inr (concatHex [bytecode, encoded]))"

section \<open>\<open>verifyHash\<close>\<close>

text \<open>
  Lines 80 to 88, the \<open>catch\<close> block: an instance of \<open>CallExecutionError\<close> becomes the
  result \<open>false\<close>, every other error is thrown again.
\<close>

definition catchBlock :: "error \<Rightarrow> error + bool" where
  "catchBlock e = (if isCallExecutionError e then Inr False else Inl e)"

text \<open>Lines 70 to 77, the object handed to the call action: \<open>{ data, ...callRequest }\<close>.\<close>

definition callParameters :: "Hex \<Rightarrow> VerifyHashParameters \<Rightarrow> CallParameters" where
  "callParameters d params =
     \<lparr>blockNumber = blockNumber params, blockTag = blockTag params,
      factory = factory params, factoryData = factoryData params, data = Some d\<rparr>"

text \<open>
  Lines 54 to 89. The constant \<open>universalSignatureValidatorByteCode\<close> of
  \<open>constants/contracts.js\<close> is not among the sources and is a parameter, as is the ABI
  encoder. The result is the value the promise resolves to (\<open>Inr\<close>) or is rejected
  with (\<open>Inl\<close>), and the world after the call. The normalisation of the signature runs
  before the \<open>try\<close>; the encoding of the payload, the call and the comparison run
  inside it.
\<close>

definition verifyHash ::
  "AbiEncoder \<Rightarrow> Hex \<Rightarrow> 'w Client \<Rightarrow> VerifyHashParameters \<Rightarrow> 'w \<Rightarrow> (error + bool) \<times> 'w" where
  "verifyHash encodeAbiParameters universalSignatureValidatorByteCode client params w =
     (case signatureHex (signature params) of
        Inl e \<Rightarrow> (Inl e, w)
      | Inr sigHex \<Rightarrow>
          (case encodeDeployData encodeAbiParameters universalSignatureValidatorAbi
                  [address params, hash params, sigHex] universalSignatureValidatorByteCode of
             Inl e \<Rightarrow> (catchBlock e, w)
           | Inr d \<Rightarrow>
               (case client (callParameters d params) w of
                  (Inl e, w') \<Rightarrow> (catchBlock e, w')
                | (Inr returned, w') \<Rightarrow>
                    (Inr (isBytesEqual (case returned of None \<Rightarrow> ''0x0'' | Some h \<Rightarrow> h) ''0x1''),
                     w'))))"

text \<open>
  A client that keeps, next to its world, the list of the requests it was called with:
  the outbound requests of a run are what a run appends to the list.
\<close>

definition recording :: "'w Client \<Rightarrow> ('w \<times> CallParameters list) Client" where
  "recording client request =
     (\<lambda>(w, requests). case client request w of (res, w') \<Rightarrow> (res, (w', requests @ [request])))"

definition outboundRequests ::
  "AbiEncoder \<Rightarrow> Hex \<Rightarrow> 'w Client \<Rightarrow> VerifyHashParameters \<Rightarrow> 'w \<Rightarrow> CallParameters list" where
  "outboundRequests enc bytecode client params w =
     snd (snd (verifyHash enc bytecode (recording client) params (w, [])))"

section \<open>Concrete inputs\<close>

text \<open>
  Inputs on which the theorems below are run: a stand-in ABI encoder that joins its
  arguments, a short stand-in bytecode, clients over a world that counts the calls (one
  answers with given data, one answers \<open>0x01\<close>, one reverts, one times out, one answers
  \<open>0x01\<close> in the first five states of the world and \<open>0x00\<close> afterwards), parameters
  with a block number and a counterfactual factory, and a signature in its three
  representations, with an upper-case variant of the hex string and a record whose \<open>r\<close>
  is out of range.
\<close>

definition joinEncoder :: AbiEncoder where
  "joinEncoder abi args = Inr (concatHex args)"

definition sampleByteCode :: Hex where
  "sampleByteCode = ''0x6080''"

definition answeringClient :: "CallReturnType \<Rightarrow> nat Client" where
  "answeringClient returned request w = (Inr returned, Suc w)"

definition validClient :: "nat Client" where
  "validClient request w = (Inr (Some ''0x01''), Suc w)"

definition revertingClient :: "nat Client" where
  "revertingClient request w = (Inl (CallExecutionError ''execution reverted''), Suc w)"

definition timeoutClient :: "nat Client" where
  "timeoutClient request w = (Inl (OtherError ''request timed out''), Suc w)"

definition chainClient :: "nat Client" where
  "chainClient request w = (Inr (Some (if w < 5 then ''0x01'' else ''0x00'')), Suc w)"

definition sampleParameters :: "SignatureInput \<Rightarrow> VerifyHashParameters" where
  "sampleParameters sig =
     \<lparr>blockNumber = Some 17, blockTag = None,
      factory = Some ''0xfac7'', factoryData = Some ''0xda7a'',
      address = ''0xaaaa'', hash = ''0x1111'', signature = sig\<rparr>"

definition sampleSignature :: Signature where
  "sampleSignature = \<lparr>r = 1, s = 2, recovery = 27\<rparr>"

definition sampleSignatureHex :: Hex where
  "sampleSignatureHex =
     ''0x'' @ replicate 63 (CHR ''0'') @ ''1'' @ replicate 63 (CHR ''0'') @ ''21b''"

definition upperCaseSignatureHex :: Hex where
  "upperCaseSignatureHex =
     ''0x'' @ replicate 63 (CHR ''0'') @ ''1'' @ replicate 63 (CHR ''0'') @ ''21B''"

definition outOfRangeSignature :: Signature where
  "outOfRangeSignature = \<lparr>r = 2 ^ 256, s = 2, recovery = 27\<rparr>"

section \<open>Facts about the helpers\<close>

lemma hexDigit_mod: "hexDigit (n mod 16) = hexDigit n"
  by (simp add: hexDigit_def)

lemma hexes_of_nat: "hexes (of_nat (n mod 256)) = [hexDigit (n div 16), hexDigit n]"
proof -
  have u: "unat (of_nat (n mod 256) :: 8 word) = n mod 256"
    by (simp add: unat_of_nat)
  have "n mod (16 * 16) = 16 * (n div 16 mod 16) + n mod 16"
    by (rule mod_mult2_eq)
  then have a: "n mod 256 div 16 = (n div 16) mod 16"
    by simp
  have b: "n mod 256 mod 16 = n mod 16"
    by (rule mod_mod_cancel) simp
  show ?thesis
    unfolding hexes_def u a b by (simp add: hexDigit_mod)
qed

lemma numberToHexDigits_bytes:
  "numberToHexDigits (2 * k) n = concat (map hexes (numberToBytes k n))"
proof (induction k arbitrary: n)
  case 0
  then show ?case by simp
next
  case (Suc k)
  have "numberToHexDigits (2 * Suc k) n =
          numberToHexDigits (2 * k) (n div 16 div 16) @ [hexDigit (n div 16), hexDigit n]"
    by (simp add: hexDigit_mod)
  also have "n div 16 div 16 = n div 256"
    by (simp add: div_mult2_eq [symmetric])
  finally show ?case
    by (simp add: Suc.IH hexes_of_nat)
qed

lemma serializeSignature_bytes:
  "inRange sg \<Longrightarrow> serializeSignature sg = Inr (bytesToHex (signatureBytes sg))"
  using numberToHexDigits_bytes [of 32] numberToHexDigits_bytes [of 1]
  by (simp add: serializeSignature_def bytesToHex_def signatureBytes_def)

lemma charCodeToBase16_table:
  "list_all (\<lambda>k. charCodeToBase16 (''0123456789abcdef'' ! k) = Some k) [0..<16]"
  by code_simp

lemma charCodeToBase16_hexDigit: "charCodeToBase16 (hexDigit n) = Some (n mod 16)"
proof -
  have "n mod 16 \<in> set [0..<16]" by simp
  with charCodeToBase16_table show ?thesis
    unfolding hexDigit_def list_all_iff by blast
qed

lemma hexPairs_hexes: "hexPairs (hexes b @ cs) = map_option ((#) b) (hexPairs cs)"
proof -
  have "unat b < 256"
    using unsigned_less [of b, where 'a = nat] by simp
  then have "unat b div 16 < 16"
    by simp
  then have "16 * (unat b div 16 mod 16) + unat b mod 16 mod 16 = unat b"
    by simp
  then show ?thesis
    by (cases "hexPairs cs") (simp_all add: hexes_def charCodeToBase16_hexDigit)
qed

lemma hexPairs_concat: "hexPairs (concat (map hexes bs)) = Some bs"
  by (induction bs) (simp_all add: hexPairs_hexes)

lemma even_length_hexes: "even (length (concat (map hexes bs)))"
  by (induction bs) (simp_all add: hexes_def)

lemma hexToBytes_bytesToHex: "hexToBytes (bytesToHex bs) = Some bs"
  by (simp add: hexToBytes_def bytesToHex_def even_length_hexes hexPairs_concat)

lemma isBytesEqual_sentinel: "isBytesEqual a ''0x1'' = (hexToBytes a = Some [1])"
  by (auto simp: isBytesEqual_def hexToBytes_def charCodeToBase16_def split: option.splits)

lemma hexToBytes_empty: "hexToBytes ''0x'' = Some []"
  by (simp add: hexToBytes_def)

lemma hexToBytes_zero: "hexToBytes ''0x0'' = Some [0]"
  by (simp add: hexToBytes_def charCodeToBase16_def)

lemma hexToBytes_sampleSignatureHex:
  "hexToBytes sampleSignatureHex = Some (signatureBytes sampleSignature)"
  unfolding sampleSignatureHex_def signatureBytes_def sampleSignature_def by code_simp

lemma hexToBytes_upperCaseSignatureHex:
  "hexToBytes upperCaseSignatureHex = Some (signatureBytes sampleSignature)"
  unfolding upperCaseSignatureHex_def signatureBytes_def sampleSignature_def by code_simp

lemma bytesToHex_sampleSignature:
  "bytesToHex (signatureBytes sampleSignature) = sampleSignatureHex"
  unfolding sampleSignatureHex_def signatureBytes_def sampleSignature_def by code_simp

lemma inRange_sampleSignature: "inRange sampleSignature"
  by (simp add: inRange_def sampleSignature_def)

section \<open>Facts about \<open>verifyHash\<close>\<close>

lemma verifyHash_called:
  assumes "signatureHex (signature params) = Inr sigHex"
    and "encodeDeployData enc universalSignatureValidatorAbi
           [address params, hash params, sigHex] bytecode = Inr d"
  shows "verifyHash enc bytecode client params w =
     (case client (callParameters d params) w of
        (Inl e, w') \<Rightarrow> (catchBlock e, w')
      | (Inr returned, w') \<Rightarrow>
          (Inr (isBytesEqual (case returned of None \<Rightarrow> ''0x0'' | Some h \<Rightarrow> h) ''0x1''), w'))"
  using assms by (simp add: verifyHash_def)

text \<open>Recording the requests changes neither the result nor the world.\<close>

lemma verifyHash_recording:
  "verifyHash enc bytecode (recording client) params (w, requests) =
     (fst (verifyHash enc bytecode client params w),
      snd (verifyHash enc bytecode client params w),
      snd (snd (verifyHash enc bytecode (recording client) params (w, requests))))"
  by (simp add: verifyHash_def recording_def split: sum.splits prod.splits)

lemma outboundRequests_eq:
  "outboundRequests enc bytecode client params w =
     (case signatureHex (signature params) of
        Inl e \<Rightarrow> []
      | Inr sigHex \<Rightarrow>
          (case enc universalSignatureValidatorAbi [address params, hash params, sigHex] of
             Inl e \<Rightarrow> []
           | Inr encoded \<Rightarrow> [callParameters (concatHex [bytecode, encoded]) params]))"
  by (simp add: outboundRequests_def verifyHash_def recording_def encodeDeployData_def
      split: sum.splits prod.splits)

lemma signature_sampleParameters: "signature (sampleParameters sig) = sig"
  by (simp add: sampleParameters_def)

lemma signatureHex_SigHex: "signatureHex (SigHex h) = Inr h"
  by (simp add: signatureHex_def)

lemma encodeDeployData_sample:
  "encodeDeployData joinEncoder universalSignatureValidatorAbi
     [address (sampleParameters sig), hash (sampleParameters sig), ''0xabcd''] sampleByteCode
   = Inr ''0x6080aaaa1111abcd''"
  by (simp add: encodeDeployData_def joinEncoder_def concatHex_def sampleParameters_def
      sampleByteCode_def)

section \<open>The claims\<close>

text \<open>
  C1. When the call succeeds and returns \<open>returned\<close>, the result of \<open>verifyHash\<close> is
  true if and only if the returned data, with absent or empty data replaced by the single
  zero byte \<open>0x0\<close>, stands for exactly the one byte \<open>01\<close>. (The source replaces absent data
  only; empty data stands for no bytes, which differs from the sentinel just as the zero
  byte does.)
\<close>

theorem verifyHash_sentinel:
  assumes "signatureHex (signature params) = Inr sigHex"
    and "encodeDeployData enc universalSignatureValidatorAbi
           [address params, hash params, sigHex] bytecode = Inr d"
    and "client (callParameters d params) w = (Inr returned, w')"
  shows "fst (verifyHash enc bytecode client params w) =
     Inr (hexToBytes (case returned of
                        None \<Rightarrow> ''0x0''
                      | Some h \<Rightarrow> if h = ''0x'' then ''0x0'' else h) = Some [1])"
  using assms
  by (auto simp: verifyHash_called isBytesEqual_sentinel hexToBytes_empty hexToBytes_zero
      split: option.splits)

theorem verifyHash_sentinel_witness:
  "fst (verifyHash joinEncoder sampleByteCode (answeringClient (Some ''0x01''))
          (sampleParameters (SigHex ''0xabcd'')) 0) = Inr True \<and>
   fst (verifyHash joinEncoder sampleByteCode (answeringClient (Some ''0x00''))
          (sampleParameters (SigHex ''0xabcd'')) 0) = Inr False \<and>
   fst (verifyHash joinEncoder sampleByteCode (answeringClient (Some ''0x''))
          (sampleParameters (SigHex ''0xabcd'')) 0) = Inr False \<and>
   fst (verifyHash joinEncoder sampleByteCode (answeringClient None)
          (sampleParameters (SigHex ''0xabcd'')) 0) = Inr False"
proof -
  have sig: "signatureHex (signature (sampleParameters (SigHex ''0xabcd''))) = Inr ''0xabcd''"
    by (simp add: signature_sampleParameters signatureHex_SigHex)
  have call: "answeringClient returned (callParameters ''0x6080aaaa1111abcd''
                (sampleParameters (SigHex ''0xabcd''))) 0 = (Inr returned, 1)" for returned
    by (simp add: answeringClient_def)
  have one: "hexToBytes ''0x01'' = Some [1]" and zero: "hexToBytes ''0x00'' = Some [0]"
    by (simp_all add: hexToBytes_def charCodeToBase16_def)
  have run: "fst (verifyHash joinEncoder sampleByteCode (answeringClient returned)
                   (sampleParameters (SigHex ''0xabcd'')) 0) =
             Inr (hexToBytes (case returned of
                                None \<Rightarrow> ''0x0''
                              | Some h \<Rightarrow> if h = ''0x'' then ''0x0'' else h) = Some [1])"
    for returned
    using sig encodeDeployData_sample call
    by (rule verifyHash_sentinel [where client = "answeringClient returned"])
  from run [of "Some ''0x01''"] run [of "Some ''0x00''"] run [of "Some ''0x''"] run [of None]
  show ?thesis
    by (simp add: one zero hexToBytes_zero)
qed

text \<open>
  C2. When the call throws an instance of \<open>CallExecutionError\<close>, \<open>verifyHash\<close> returns
  false; the error is not passed on.
\<close>

theorem verifyHash_reverted:
  assumes "signatureHex (signature params) = Inr sigHex"
    and "encodeDeployData enc universalSignatureValidatorAbi
           [address params, hash params, sigHex] bytecode = Inr d"
    and "client (callParameters d params) w = (Inl (CallExecutionError m), w')"
  shows "fst (verifyHash enc bytecode client params w) = Inr False"
  using assms by (simp add: verifyHash_called catchBlock_def)

theorem verifyHash_reverted_witness:
  "fst (verifyHash joinEncoder sampleByteCode revertingClient
          (sampleParameters (SigHex ''0xabcd'')) 0) = Inr False"
proof -
  have call: "revertingClient (callParameters ''0x6080aaaa1111abcd''
                (sampleParameters (SigHex ''0xabcd''))) 0
              = (Inl (CallExecutionError ''execution reverted''), 1)"
    by (simp add: revertingClient_def)
  from verifyHash_reverted [where client = revertingClient, OF _ encodeDeployData_sample call]
  show ?thesis
    by (simp add: signature_sampleParameters signatureHex_SigHex)
qed

text \<open>
  C3. When the call throws anything that is not an instance of \<open>CallExecutionError\<close>,
  \<open>verifyHash\<close> rejects with that same error; it does not return false.
\<close>

theorem verifyHash_propagates:
  assumes "signatureHex (signature params) = Inr sigHex"
    and "encodeDeployData enc universalSignatureValidatorAbi
           [address params, hash params, sigHex] bytecode = Inr d"
    and "client (callParameters d params) w = (Inl e, w')"
    and "\<not> isCallExecutionError e"
  shows "verifyHash enc bytecode client params w = (Inl e, w')"
  using assms by (simp add: verifyHash_called catchBlock_def)

theorem verifyHash_propagates_witness:
  "verifyHash joinEncoder sampleByteCode timeoutClient
     (sampleParameters (SigHex ''0xabcd'')) 0 = (Inl (OtherError ''request timed out''), 1)"
proof -
  have call: "timeoutClient (callParameters ''0x6080aaaa1111abcd''
                (sampleParameters (SigHex ''0xabcd''))) 0
              = (Inl (OtherError ''request timed out''), 1)"
    by (simp add: timeoutClient_def)
  have "\<not> isCallExecutionError (OtherError ''request timed out'')"
    by simp
  from verifyHash_propagates [where client = timeoutClient, OF _ encodeDeployData_sample call this]
  show ?thesis
    by (simp add: signature_sampleParameters signatureHex_SigHex)
qed

text \<open>
  C4. For a signature of section 3 (\<open>r\<close> and \<open>s\<close> 256-bit scalars, the recovery indicator
  one byte), its three representations normalise to one and the same output, the hex
  encoding of its bytes: the hex-encoded string, which is passed through unchanged, the
  raw byte sequence and the structured record. That string stands for the bytes of the
  signature, and any other hex spelling of the same bytes is passed through unchanged
  as well.
\<close>

theorem signatureHex_representations:
  assumes "inRange sg"
  shows "signatureHex (SigHex (bytesToHex (signatureBytes sg))) = Inr (bytesToHex (signatureBytes sg)) \<and>
         signatureHex (SigBytes (signatureBytes sg)) = Inr (bytesToHex (signatureBytes sg)) \<and>
         signatureHex (SigObject sg) = Inr (bytesToHex (signatureBytes sg)) \<and>
         hexToBytes (bytesToHex (signatureBytes sg)) = Some (signatureBytes sg) \<and>
         (\<forall>h. hexToBytes h = Some (signatureBytes sg) \<longrightarrow> signatureHex (SigHex h) = Inr h)"
  using assms
  by (simp add: signatureHex_def serializeSignature_bytes hexToBytes_bytesToHex)

theorem signatureHex_representations_witness:
  "signatureHex (SigHex sampleSignatureHex) = Inr sampleSignatureHex \<and>
   signatureHex (SigBytes (signatureBytes sampleSignature)) = Inr sampleSignatureHex \<and>
   signatureHex (SigObject sampleSignature) = Inr sampleSignatureHex \<and>
   hexToBytes sampleSignatureHex = Some (signatureBytes sampleSignature) \<and>
   hexToBytes upperCaseSignatureHex = Some (signatureBytes sampleSignature) \<and>
   signatureHex (SigHex upperCaseSignatureHex) = Inr upperCaseSignatureHex"
  using signatureHex_representations [OF inRange_sampleSignature]
  by (simp add: bytesToHex_sampleSignature hexToBytes_upperCaseSignatureHex)

text \<open>
  C5. Every request \<open>verifyHash\<close> sends carries as \<open>data\<close> the validator bytecode followed by
  the ABI encoding of the constructor arguments: the signer's address, the hash and the
  normalised signature, in this order.
\<close>

theorem verifyHash_deploy_data:
  "\<forall>request \<in> set (outboundRequests enc bytecode client params w).
     \<exists>sigHex encoded.
       signatureHex (signature params) = Inr sigHex \<and>
       enc universalSignatureValidatorAbi [address params, hash params, sigHex] = Inr encoded \<and>
       data request = Some (''0x'' @ drop 2 bytecode @ drop 2 encoded)"
proof (cases "signatureHex (signature params)")
  case (Inl e)
  then show ?thesis
    by (simp add: outboundRequests_eq)
next
  case sig: (Inr sigHex)
  show ?thesis
  proof (cases "enc universalSignatureValidatorAbi [address params, hash params, sigHex]")
    case (Inl e)
    with sig show ?thesis
      by (simp add: outboundRequests_eq)
  next
    case (Inr encoded)
    with sig show ?thesis
      by (simp add: outboundRequests_eq callParameters_def concatHex_def)
  qed
qed

theorem verifyHash_deploy_data_witness:
  "map data (outboundRequests joinEncoder sampleByteCode validClient
       (sampleParameters (SigHex ''0xabcd'')) 0) = [Some ''0x6080aaaa1111abcd'']"
proof -
  have sent: "outboundRequests joinEncoder sampleByteCode validClient
       (sampleParameters (SigHex ''0xabcd'')) 0 =
       [callParameters ''0x6080aaaa1111abcd'' (sampleParameters (SigHex ''0xabcd''))]"
    by (simp add: outboundRequests_eq signature_sampleParameters signatureHex_SigHex
        joinEncoder_def concatHex_def sampleParameters_def sampleByteCode_def)
  from verifyHash_deploy_data [of joinEncoder sampleByteCode validClient
      "sampleParameters (SigHex ''0xabcd'')" 0]
  show ?thesis
    unfolding sent
    by (simp add: signature_sampleParameters signatureHex_SigHex joinEncoder_def concatHex_def
        sampleParameters_def sampleByteCode_def)
qed

text \<open>
  C6. Every request \<open>verifyHash\<close> sends carries the caller's \<open>blockNumber\<close>, \<open>blockTag\<close>,
  \<open>factory\<close> and \<open>factoryData\<close> as they were given, whatever their values.
\<close>

theorem verifyHash_forwards_callRequest:
  "\<forall>request \<in> set (outboundRequests enc bytecode client params w).
     blockNumber request = blockNumber params \<and> blockTag request = blockTag params \<and>
     factory request = factory params \<and> factoryData request = factoryData params"
  by (auto simp: outboundRequests_eq callParameters_def split: sum.splits)

theorem verifyHash_forwards_callRequest_witness:
  "outboundRequests joinEncoder sampleByteCode validClient
       (sampleParameters (SigHex ''0xabcd'')) 0 \<noteq> [] \<and>
   map (\<lambda>request. (blockNumber request, blockTag request, factory request, factoryData request))
     (outboundRequests joinEncoder sampleByteCode validClient
       (sampleParameters (SigHex ''0xabcd'')) 0)
   = [(Some 17, None, Some ''0xfac7'', Some ''0xda7a'')]"
proof -
  have sent: "outboundRequests joinEncoder sampleByteCode validClient
       (sampleParameters (SigHex ''0xabcd'')) 0 =
       [callParameters ''0x6080aaaa1111abcd'' (sampleParameters (SigHex ''0xabcd''))]"
    by (simp add: outboundRequests_eq signature_sampleParameters signatureHex_SigHex
        joinEncoder_def concatHex_def sampleParameters_def sampleByteCode_def)
  from verifyHash_forwards_callRequest [of joinEncoder sampleByteCode validClient
      "sampleParameters (SigHex ''0xabcd'')" 0]
  show ?thesis
    unfolding sent by (simp add: sampleParameters_def)
qed

text \<open>
  C7. When the signature cannot be normalised, \<open>verifyHash\<close> rejects with the error of the
  normalisation, the call capability is not invoked (no request is sent, the world is as
  before), and the error is not turned into false.
\<close>

theorem verifyHash_encoding_error_before_call:
  assumes "signatureHex (signature params) = Inl e"
  shows "verifyHash enc bytecode (recording client) params (w, requests) = (Inl e, (w, requests))"
  using assms by (simp add: verifyHash_def)

theorem verifyHash_encoding_error_before_call_witness:
  "verifyHash joinEncoder sampleByteCode (recording validClient)
     (sampleParameters (SigObject outOfRangeSignature)) (0, [])
   = (Inl (EncodingError ''signature field out of range''), (0, []))"
proof -
  have "signatureHex (signature (sampleParameters (SigObject outOfRangeSignature)))
        = Inl (EncodingError ''signature field out of range'')"
    by (simp add: signature_sampleParameters signatureHex_def serializeSignature_def
        inRange_def outOfRangeSignature_def)
  then show ?thesis
    by (rule verifyHash_encoding_error_before_call)
qed

text \<open>
  C8. The normalisation is a function of its input alone, and on every value of the
  declared union (a hex string, a byte array, a structured record of 256-bit scalars
  \<open>r\<close> and \<open>s\<close> and a recovery byte) it returns hex and raises no error: the hex string
  itself, the encoding of the byte array, and for the record the encoding of its bytes
  \<open>r\<close>, \<open>s\<close>, recovery.
\<close>

theorem signatureHex_total:
  assumes "case sig of SigObject sg \<Rightarrow> inRange sg | _ \<Rightarrow> True"
  shows "signatureHex sig =
     Inr (case sig of
            SigHex h \<Rightarrow> h
          | SigBytes bs \<Rightarrow> bytesToHex bs
          | SigObject sg \<Rightarrow> bytesToHex (signatureBytes sg))"
  using assms
  by (cases sig) (simp_all add: signatureHex_def serializeSignature_bytes)

theorem signatureHex_total_witness:
  "signatureHex (SigHex ''0xabc'') = Inr ''0xabc'' \<and>
   signatureHex (SigBytes [171, 1]) = Inr ''0xab01'' \<and>
   signatureHex (SigObject sampleSignature) = Inr sampleSignatureHex"
proof -
  have "bytesToHex [171, 1] = ''0xab01''"
    by (simp add: bytesToHex_def hexes_def hexDigit_def)
  with signatureHex_total [of "SigHex ''0xabc''"] signatureHex_total [of "SigBytes [171, 1]"]
    signatureHex_total [of "SigObject sampleSignature"]
  show ?thesis
    by (simp add: inRange_sampleSignature bytesToHex_sampleSignature)
qed

text \<open>
  C9. Two runs of \<open>verifyHash\<close> on the same parameters, started in two states of the world
  in which the call capability gives the same answers, send the same request and give
  the same result. The condition is on these two states only: the answers may depend on
  the state of the chain and may differ in every other state, so a run that asked the
  call capability a second time, or kept something from an earlier run, would not
  satisfy the statement.
\<close>

theorem verifyHash_deterministic:
  assumes "\<forall>request. fst (client request w1) = fst (client request w2)"
  shows "fst (verifyHash enc bytecode client params w1) =
         fst (verifyHash enc bytecode client params w2) \<and>
         outboundRequests enc bytecode client params w1 =
         outboundRequests enc bytecode client params w2"
proof (cases "signatureHex (signature params)")
  case (Inl e)
  then show ?thesis by (simp add: verifyHash_def outboundRequests_eq)
next
  case sig: (Inr sigHex)
  show ?thesis
  proof (cases "encodeDeployData enc universalSignatureValidatorAbi
           [address params, hash params, sigHex] bytecode")
    case (Inl e)
    with sig show ?thesis by (simp add: verifyHash_def outboundRequests_eq)
  next
    case payload: (Inr d)
    from assms have "fst (client (callParameters d params) w1) =
                     fst (client (callParameters d params) w2)"
      by blast
    then have "fst (verifyHash enc bytecode client params w1) =
               fst (verifyHash enc bytecode client params w2)"
      by (cases "client (callParameters d params) w1"; cases "client (callParameters d params) w2")
         (auto simp: verifyHash_called [OF sig payload] split: sum.splits)
    then show ?thesis
      by (simp add: outboundRequests_eq)
  qed
qed

theorem verifyHash_deterministic_witness:
  "snd (verifyHash joinEncoder sampleByteCode chainClient
          (sampleParameters (SigHex ''0xabcd'')) 0) = 1 \<and>
   fst (verifyHash joinEncoder sampleByteCode chainClient
          (sampleParameters (SigHex ''0xabcd'')) 0) = Inr True \<and>
   fst (verifyHash joinEncoder sampleByteCode chainClient
          (sampleParameters (SigHex ''0xabcd'')) 1) = Inr True \<and>
   fst (verifyHash joinEncoder sampleByteCode chainClient
          (sampleParameters (SigHex ''0xabcd'')) 7) = Inr False"
proof -
  have sig: "signatureHex (signature (sampleParameters (SigHex ''0xabcd''))) = Inr ''0xabcd''"
    by (simp add: signature_sampleParameters signatureHex_SigHex)
  have run: "verifyHash joinEncoder sampleByteCode chainClient
               (sampleParameters (SigHex ''0xabcd'')) w =
             (Inr (isBytesEqual (if w < 5 then ''0x01'' else ''0x00'') ''0x1''), Suc w)" for w
    by (simp add: verifyHash_called [OF sig encodeDeployData_sample] chainClient_def)
  have one: "hexToBytes ''0x01'' = Some [1]" and zero: "hexToBytes ''0x00'' = Some [0]"
    by (simp_all add: hexToBytes_def charCodeToBase16_def)
  have same: "\<forall>request. fst (chainClient request 0) = fst (chainClient request 1)"
    by (simp add: chainClient_def)
  from verifyHash_deterministic [OF same, of joinEncoder sampleByteCode
      "sampleParameters (SigHex ''0xabcd'')"]
  show ?thesis
    by (simp add: run isBytesEqual_sentinel one zero)
qed

text \<open>
  C10. A signature that \<open>isHex\<close> accepts takes the first branch of the normalisation: it
  is returned as it is, whatever its length and content, and the normalisation raises
  no error.
\<close>

theorem signatureHex_hex_unchanged:
  assumes "isHex sig"
  shows "signatureHex sig = Inr (asHex sig)"
  using assms by (simp add: signatureHex_def)

theorem signatureHex_hex_unchanged_witness:
  "isHex (SigHex ''0xabc'') \<and> signatureHex (SigHex ''0xabc'') = Inr ''0xabc''"
  using signatureHex_hex_unchanged [of "SigHex ''0xabc''"] by simp

end
